theory Spec2Isabelle
  imports Complex_Main
begin

section \<open>Dates, timestamps and the clock\<close>

text \<open>
  A Python \<open>date\<close> is modelled by its proleptic ordinal (\<open>date.toordinal()\<close>), so that
  \<open>d - timedelta(days=1)\<close> is \<open>d - 1\<close>. A naive \<open>datetime\<close> is a date together with
  the time of day in microseconds since midnight; Python compares naive datetimes
  field by field, that is lexicographically on this pair. The columns of type
  \<open>Float\<close> are idealised as real numbers.
\<close>

type_synonym date = int

record datetime =
  dt_date :: date
  dt_us :: nat

definition us_per_day :: nat where
  "us_per_day = 86400000000"

definition time_min :: nat where
  \<comment> \<open>\<open>datetime.min.time()\<close>, 00:00:00.000000\<close>
  "time_min = 0"

definition time_max :: nat where
  \<comment> \<open>\<open>datetime.max.time()\<close>, 23:59:59.999999\<close>
  "time_max = 86399999999"

definition valid_datetime :: "datetime \<Rightarrow> bool" where
  \<comment> \<open>the values a Python \<open>datetime\<close> can hold\<close>
  "valid_datetime t = (dt_us t \<le> time_max)"

definition combine :: "date \<Rightarrow> nat \<Rightarrow> datetime" where
  \<comment> \<open>\<open>datetime.combine(d, t)\<close>\<close>
  "combine d t = \<lparr>dt_date = d, dt_us = t\<rparr>"

definition dt_le :: "datetime \<Rightarrow> datetime \<Rightarrow> bool" where
  "dt_le a b = (dt_date a < dt_date b \<or> (dt_date a = dt_date b \<and> dt_us a \<le> dt_us b))"

text \<open>
  The process reads two clocks: \<open>datetime.utcnow()\<close>, and \<open>date.today()\<close>, which is the
  calendar date of the local wall clock, that is of UTC shifted by the zone offset of
  the host (here in microseconds).
\<close>

record clock =
  utc_now :: datetime
  utc_offset :: int

definition shift_datetime :: "datetime \<Rightarrow> int \<Rightarrow> datetime" where
  "shift_datetime t off =
     (let total = dt_date t * int us_per_day + int (dt_us t) + off
      in \<lparr>dt_date = total div int us_per_day, dt_us = nat (total mod int us_per_day)\<rparr>)"

definition datetime_utcnow :: "clock \<Rightarrow> datetime" where
  "datetime_utcnow clk = utc_now clk"

definition date_today :: "clock \<Rightarrow> date" where
  "date_today clk = dt_date (shift_datetime (utc_now clk) (utc_offset clk))"

section \<open>Data model (models.py)\<close>

record SensorReading =
  s_id :: nat
  s_ph :: real
  s_tds :: real
  s_turbidity :: real
  s_temperature :: real
  s_timestamp :: datetime

record DailyPrediction =
  p_id :: nat
  p_date :: date
  p_avg_ph :: real
  p_avg_tds :: real
  p_avg_turbidity :: real
  p_avg_temperature :: real
  p_prediction :: string
  p_prediction_confidence :: "real option"
  p_reading_count :: nat
  p_created_at :: datetime

text \<open>The database: the two tables, rows in insertion order.\<close>

record db =
  sensor_readings :: "SensorReading list"
  daily_predictions :: "DailyPrediction list"

text \<open>The exceptions the code can raise; every one is a subclass of \<open>Exception\<close>.\<close>

datatype exn =
    AttributeError
  | RuntimeError
  | TypeError
  | ValueError
  | IntegrityError
  | ArtifactError string

text \<open>An integer primary key: the store assigns one more than the largest key in use.\<close>

definition next_id :: "nat list \<Rightarrow> nat" where
  "next_id ids = Suc (fold max ids 0)"

section \<open>Ingestion (crud.py, create_sensor_reading)\<close>

text \<open>
  The request schema is declared outside the files at hand; the function reads the four
  parameters of it and nothing else, so whatever further fields the schema carries are
  the extension of this record.
\<close>

record SensorReadingCreate =
  ph :: real
  tds :: real
  turbidity :: real
  temperature :: real

definition create_sensor_reading ::
  "clock \<Rightarrow> db \<Rightarrow> 'a SensorReadingCreate_scheme \<Rightarrow> SensorReading \<times> db" where
  "create_sensor_reading clk d reading =
     (let db_reading =
            \<lparr>s_id = next_id (map s_id (sensor_readings d)),
             s_ph = ph reading,
             s_tds = tds reading,
             s_turbidity = turbidity reading,
             s_temperature = temperature reading,
             s_timestamp = datetime_utcnow clk\<rparr>
      in (db_reading, d\<lparr>sensor_readings := sensor_readings d @ [db_reading]\<rparr>))"

section \<open>The aggregator (crud.py, compute_daily_aggregates)\<close>

record aggregates =
  avg_ph :: real
  avg_tds :: real
  avg_turbidity :: real
  avg_temperature :: real
  reading_count :: nat

definition in_window :: "date \<Rightarrow> datetime \<Rightarrow> bool" where
  \<comment> \<open>the filter \<open>timestamp >= start_datetime, timestamp <= end_datetime\<close>\<close>
  "in_window target_date t =
     (dt_le (combine target_date time_min) t \<and> dt_le t (combine target_date time_max))"

definition window_readings :: "db \<Rightarrow> date \<Rightarrow> SensorReading list" where
  "window_readings d target_date =
     filter (\<lambda>r. in_window target_date (s_timestamp r)) (sensor_readings d)"

definition sql_avg :: "real list \<Rightarrow> real option" where
  \<comment> \<open>\<open>func.avg\<close>: NULL over no rows\<close>
  "sql_avg xs = (if xs = [] then None else Some (sum_list xs / real (length xs)))"

definition sql_count :: "'a list \<Rightarrow> nat" where
  "sql_count xs = length xs"

definition py_float :: "real option \<Rightarrow> exn + real" where
  \<comment> \<open>\<open>float(x)\<close>; \<open>float(None)\<close> raises TypeError\<close>
  "py_float x = (case x of None \<Rightarrow> Inl TypeError | Some v \<Rightarrow> Inr v)"

definition compute_daily_aggregates :: "db \<Rightarrow> date \<Rightarrow> exn + aggregates option" where
  "compute_daily_aggregates d target_date =
     (let rows = window_readings d target_date;
          r_avg_ph = sql_avg (map s_ph rows);
          r_avg_tds = sql_avg (map s_tds rows);
          r_avg_turbidity = sql_avg (map s_turbidity rows);
          r_avg_temperature = sql_avg (map s_temperature rows);
          r_count = sql_count (map s_id rows)
      in if r_count = 0 then Inr None
         else (case py_float r_avg_ph of Inl e \<Rightarrow> Inl e | Inr a1 \<Rightarrow>
              (case py_float r_avg_tds of Inl e \<Rightarrow> Inl e | Inr a2 \<Rightarrow>
              (case py_float r_avg_turbidity of Inl e \<Rightarrow> Inl e | Inr a3 \<Rightarrow>
              (case py_float r_avg_temperature of Inl e \<Rightarrow> Inl e | Inr a4 \<Rightarrow>
                Inr (Some \<lparr>avg_ph = a1, avg_tds = a2, avg_turbidity = a3,
                           avg_temperature = a4, reading_count = r_count\<rparr>))))))"

section \<open>The classifier (ml_service.py)\<close>

text \<open>
  The two artifacts are opaque objects loaded from disk. The estimator's \<open>predict\<close>
  returns the encoded class of the one feature row; \<open>predict_proba\<close>, an attribute
  that an estimator may lack (\<open>hasattr\<close>), returns the row of class probabilities, one
  column per encoded class. Any call into an artifact may raise.
\<close>

record estimator =
  predict :: "real list \<Rightarrow> exn + nat"
  predict_proba :: "(real list \<Rightarrow> exn + real list) option"

record encoder =
  inverse_transform :: "nat \<Rightarrow> exn + string"

record MLService =
  model :: "estimator option"
  label_encoder :: "encoder option"

definition py_max :: "real list \<Rightarrow> exn + real" where
  \<comment> \<open>\<open>max(xs)\<close>; raises ValueError on an empty sequence\<close>
  "py_max xs = (case xs of [] \<Rightarrow> Inl ValueError | x # ys \<Rightarrow> Inr (fold max ys x))"

definition MLService_predict ::
  "MLService \<Rightarrow> real \<Rightarrow> real \<Rightarrow> real \<Rightarrow> real \<Rightarrow> exn + string \<times> real option" where
  "MLService_predict self ph0 tds0 turbidity0 temperature0 =
     (case (model self, label_encoder self) of
        (Some m, Some enc) \<Rightarrow>
          (let features = [ph0, tds0, turbidity0, temperature0] in
           case predict m features of Inl e \<Rightarrow> Inl e | Inr prediction_encoded \<Rightarrow>
          (case inverse_transform enc prediction_encoded of Inl e \<Rightarrow> Inl e
           | Inr prediction_label \<Rightarrow>
          (case predict_proba m of
             None \<Rightarrow> Inr (prediction_label, None)
           | Some proba \<Rightarrow>
              (case proba features of Inl e \<Rightarrow> Inl e | Inr probabilities \<Rightarrow>
              (case py_max probabilities of Inl e \<Rightarrow> Inl e
               | Inr confidence \<Rightarrow> Inr (prediction_label, Some confidence))))))
      | _ \<Rightarrow> Inl RuntimeError)"

section \<open>The prediction store (crud.py, create_daily_prediction)\<close>

text \<open>
  The three statements the function sends to the store. The column \<open>date\<close> is declared
  \<open>unique=True\<close>: an insert of a second row for a date is refused with an integrity
  error and writes nothing. An update is keyed by the primary key of the loaded row.
\<close>

definition query_by_date :: "db \<Rightarrow> date \<Rightarrow> DailyPrediction option" where
  \<comment> \<open>\<open>db.query(DailyPrediction).filter(DailyPrediction.date == target_date).first()\<close>\<close>
  "query_by_date d target_date = find (\<lambda>p. p_date p = target_date) (daily_predictions d)"

definition insert_prediction ::
  "db \<Rightarrow> datetime \<Rightarrow> date \<Rightarrow> aggregates \<Rightarrow> string \<Rightarrow> real option
     \<Rightarrow> exn + DailyPrediction \<times> db" where
  "insert_prediction d now target_date aggs prediction confidence =
     (if target_date \<in> set (map p_date (daily_predictions d)) then Inl IntegrityError
      else
        (let db_prediction =
               \<lparr>p_id = next_id (map p_id (daily_predictions d)),
                p_date = target_date,
                p_avg_ph = avg_ph aggs,
                p_avg_tds = avg_tds aggs,
                p_avg_turbidity = avg_turbidity aggs,
                p_avg_temperature = avg_temperature aggs,
                p_prediction = prediction,
                p_prediction_confidence = confidence,
                p_reading_count = reading_count aggs,
                p_created_at = now\<rparr>
         in Inr (db_prediction,
                 d\<lparr>daily_predictions := daily_predictions d @ [db_prediction]\<rparr>)))"

definition assign_prediction ::
  "DailyPrediction \<Rightarrow> datetime \<Rightarrow> aggregates \<Rightarrow> string \<Rightarrow> real option \<Rightarrow> DailyPrediction" where
  \<comment> \<open>the eight attribute assignments of the update branch\<close>
  "assign_prediction existing now aggs prediction confidence =
     existing\<lparr>p_avg_ph := avg_ph aggs,
              p_avg_tds := avg_tds aggs,
              p_avg_turbidity := avg_turbidity aggs,
              p_avg_temperature := avg_temperature aggs,
              p_prediction := prediction,
              p_prediction_confidence := confidence,
              p_reading_count := reading_count aggs,
              p_created_at := now\<rparr>"

definition update_prediction ::
  "db \<Rightarrow> datetime \<Rightarrow> DailyPrediction \<Rightarrow> aggregates \<Rightarrow> string \<Rightarrow> real option
     \<Rightarrow> DailyPrediction \<times> db" where
  "update_prediction d now existing aggs prediction confidence =
     (assign_prediction existing now aggs prediction confidence,
      d\<lparr>daily_predictions :=
           map (\<lambda>p. if p_id p = p_id existing
                    then assign_prediction p now aggs prediction confidence else p)
               (daily_predictions d)\<rparr>)"

definition write_prediction ::
  "db \<Rightarrow> datetime \<Rightarrow> DailyPrediction option \<Rightarrow> date \<Rightarrow> aggregates \<Rightarrow> string \<Rightarrow> real option
     \<Rightarrow> exn + DailyPrediction \<times> db" where
  \<comment> \<open>the \<open>if existing: ... else: ...\<close> of the function, after the lookup\<close>
  "write_prediction d now existing target_date aggs prediction confidence =
     (case existing of
        Some row \<Rightarrow> Inr (update_prediction d now row aggs prediction confidence)
      | None \<Rightarrow> insert_prediction d now target_date aggs prediction confidence)"

definition create_daily_prediction ::
  "db \<Rightarrow> datetime \<Rightarrow> date \<Rightarrow> aggregates \<Rightarrow> string \<Rightarrow> real option
     \<Rightarrow> exn + DailyPrediction \<times> db" where
  "create_daily_prediction d now target_date aggs prediction confidence =
     write_prediction d now (query_by_date d target_date) target_date aggs prediction confidence"

section \<open>The daily job (scheduler_service.py, run_daily_prediction)\<close>

text \<open>
  The function returns \<open>None\<close> on every path; what tells the paths apart is the branch
  taken: the early \<open>return\<close> after the warning that no data is available, the
  \<open>except Exception\<close> handler, or the end of the \<open>try\<close> block. The outcome records
  that branch. The module global \<open>ml_service\<close> is a parameter, \<open>None\<close> until it is
  bound; a call of a method on \<open>None\<close> raises AttributeError.
\<close>

datatype job_outcome = Completed | SkippedNoData | Failed exn

definition make_ml_prediction :: "MLService option \<Rightarrow> aggregates \<Rightarrow> exn + string \<times> real option" where
  \<comment> \<open>step 2 of the job: the call \<open>ml_service.predict(ph=aggregates['avg_ph'], ...)\<close>\<close>
  "make_ml_prediction ml_service aggs =
     (case ml_service of
        None \<Rightarrow> Inl AttributeError
      | Some svc \<Rightarrow>
          MLService_predict svc (avg_ph aggs) (avg_tds aggs)
            (avg_turbidity aggs) (avg_temperature aggs))"

definition job_body :: "MLService option \<Rightarrow> clock \<Rightarrow> db \<Rightarrow> exn + job_outcome \<times> db" where
  \<comment> \<open>the body of the \<open>try\<close> block\<close>
  "job_body ml_service clk d =
     (let yesterday = date_today clk - 1 in
      case compute_daily_aggregates d yesterday of
        Inl e \<Rightarrow> Inl e
      | Inr None \<Rightarrow> Inr (SkippedNoData, d)
      | Inr (Some aggs) \<Rightarrow>
         (case make_ml_prediction ml_service aggs of
            Inl e \<Rightarrow> Inl e
          | Inr (prediction_label, confidence) \<Rightarrow>
             (case create_daily_prediction d (datetime_utcnow clk) yesterday aggs
                     prediction_label confidence of
                Inl e \<Rightarrow> Inl e
              | Inr (daily_prediction, d') \<Rightarrow> Inr (Completed, d'))))"

definition run_daily_prediction ::
  "MLService option \<Rightarrow> clock \<Rightarrow> db \<Rightarrow> exn + job_outcome \<times> db" where
  \<comment> \<open>\<open>try: ... except Exception as e: logger.error(...)\<close>; a write that raises commits nothing\<close>
  "run_daily_prediction ml_service clk d =
     (case job_body ml_service clk d of
        Inl e \<Rightarrow> Inr (Failed e, d)
      | Inr r \<Rightarrow> Inr r)"

section \<open>The manual trigger (main.py, trigger_prediction_manually)\<close>

datatype response = Message string | HTTPException nat exn

definition trigger_prediction_manually ::
  "MLService option \<Rightarrow> clock \<Rightarrow> db \<Rightarrow> response \<times> db" where
  "trigger_prediction_manually ml_service clk d =
     (case run_daily_prediction ml_service clk d of
        Inr (outcome, d') \<Rightarrow> (Message ''Daily prediction triggered successfully'', d')
      | Inl e \<Rightarrow> (HTTPException 500 e, d))"

section \<open>Runs that overlap\<close>

text \<open>
  The scheduler calls the job on its own thread and the request handler calls it on the
  server's, so runs can overlap. A run is cut at its accesses to the store, which the
  store serialises: the aggregation query, the classification, the lookup by date, and
  the write. Each step reads the clock when it is taken. Nothing in the code holds a
  lock or a flag between these steps, and nothing refuses a trigger.
\<close>

datatype run_state =
    Triggered
  | Aggregated date aggregates
  | Predicted date aggregates string "real option"
  | LookedUp date aggregates string "real option" "DailyPrediction option"
  | Ended job_outcome

definition run_step :: "MLService option \<Rightarrow> clock \<Rightarrow> db \<Rightarrow> run_state \<Rightarrow> run_state \<times> db" where
  "run_step ml_service clk d st =
     (case st of
        Triggered \<Rightarrow>
          (let yesterday = date_today clk - 1 in
           case compute_daily_aggregates d yesterday of
             Inl e \<Rightarrow> (Ended (Failed e), d)
           | Inr None \<Rightarrow> (Ended SkippedNoData, d)
           | Inr (Some aggs) \<Rightarrow> (Aggregated yesterday aggs, d))
      | Aggregated yesterday aggs \<Rightarrow>
          (case make_ml_prediction ml_service aggs of
             Inl e \<Rightarrow> (Ended (Failed e), d)
           | Inr (prediction_label, confidence) \<Rightarrow>
               (Predicted yesterday aggs prediction_label confidence, d))
      | Predicted yesterday aggs prediction_label confidence \<Rightarrow>
          (LookedUp yesterday aggs prediction_label confidence (query_by_date d yesterday), d)
      | LookedUp yesterday aggs prediction_label confidence existing \<Rightarrow>
          (case write_prediction d (datetime_utcnow clk) existing yesterday aggs
                  prediction_label confidence of
             Inl e \<Rightarrow> (Ended (Failed e), d)
           | Inr (daily_prediction, d') \<Rightarrow> (Ended Completed, d'))
      | Ended outcome \<Rightarrow> (Ended outcome, d))"

text \<open>
  The system: the store and the runs started so far. An event is a trigger (a tick of
  the scheduler or a request to the manual endpoint), the next step of the run with a
  given index, or an ingestion request.
\<close>

datatype event =
    Trigger
  | Step nat clock
  | Ingest SensorReadingCreate clock

fun sys_step :: "MLService option \<Rightarrow> db \<times> run_state list \<Rightarrow> event \<Rightarrow> db \<times> run_state list" where
  "sys_step ml_service (d, runs) Trigger = (d, runs @ [Triggered])"
| "sys_step ml_service (d, runs) (Step i clk) =
     (if i < length runs
      then (case run_step ml_service clk d (runs ! i) of (st', d') \<Rightarrow> (d', runs[i := st']))
      else (d, runs))"
| "sys_step ml_service (d, runs) (Ingest reading clk) =
     (snd (create_sensor_reading clk d reading), runs)"

definition exec :: "MLService option \<Rightarrow> db \<times> run_state list \<Rightarrow> event list \<Rightarrow> db \<times> run_state list" where
  "exec ml_service s evs = foldl (sys_step ml_service) s evs"

fun target_of :: "run_state \<Rightarrow> date option" where
  \<comment> \<open>the target date of a run that has computed it and has not ended\<close>
  "target_of Triggered = None"
| "target_of (Aggregated y _) = Some y"
| "target_of (Predicted y _ _ _) = Some y"
| "target_of (LookedUp y _ _ _ _) = Some y"
| "target_of (Ended _) = None"

definition in_flight_dates :: "run_state list \<Rightarrow> date list" where
  "in_flight_dates runs = List.map_filter target_of runs"

definition single_flight :: "run_state list \<Rightarrow> bool" where
  \<comment> \<open>at most one run in flight per target date\<close>
  "single_flight runs = distinct (in_flight_dates runs)"

definition unique_dates :: "db \<Rightarrow> bool" where
  \<comment> \<open>no two rows of \<open>daily_predictions\<close> share a date\<close>
  "unique_dates d = distinct (map p_date (daily_predictions d))"


section \<open>The mass of the predicted label\<close>

text \<open>
  What the estimator itself assigns to the class it predicts: the entry of its
  probability row in the column of the predicted class. It is absent when the estimator
  has no \<open>predict_proba\<close>, when a call raises, or when the row has no such column.
  This is the quantity the confidence is compared with; the code does not compute it.
\<close>

definition predicted_label_mass :: "estimator \<Rightarrow> real list \<Rightarrow> real option" where
  "predicted_label_mass m features =
     (case predict_proba m of
        None \<Rightarrow> None
      | Some proba \<Rightarrow>
         (case (predict m features, proba features) of
            (Inr c, Inr ps) \<Rightarrow> (if c < length ps then Some (ps ! c) else None)
          | _ \<Rightarrow> None))"

section \<open>Example data\<close>

text \<open>
  Day 100 holds three readings, at its first and last microsecond and at noon, with
  acidity 7.0, 7.2 and 7.4; the days before and after hold one reading each, at the
  microsecond next to the boundary.
\<close>

definition ex_reading :: "nat \<Rightarrow> real \<Rightarrow> date \<Rightarrow> nat \<Rightarrow> SensorReading" where
  "ex_reading i v day us =
     \<lparr>s_id = i, s_ph = v, s_tds = 300, s_turbidity = 2, s_temperature = 25,
      s_timestamp = \<lparr>dt_date = day, dt_us = us\<rparr>\<rparr>"

definition ex_readings :: "SensorReading list" where
  "ex_readings =
     [ex_reading 1 1 99 86399999999,
      ex_reading 2 7 100 0,
      ex_reading 3 (36 / 5) 100 43200000000,
      ex_reading 4 (37 / 5) 100 86399999999,
      ex_reading 5 13 101 0]"

definition ex_db :: db where
  "ex_db = \<lparr>sensor_readings = ex_readings, daily_predictions = []\<rparr>"

definition ex_aggregates :: aggregates where
  "ex_aggregates =
     \<lparr>avg_ph = 36 / 5, avg_tds = 300, avg_turbidity = 2, avg_temperature = 25,
      reading_count = 3\<rparr>"

definition ex_prediction :: "datetime \<Rightarrow> DailyPrediction" where
  "ex_prediction stamp =
     \<lparr>p_id = 1, p_date = 100, p_avg_ph = 36 / 5, p_avg_tds = 300, p_avg_turbidity = 2,
      p_avg_temperature = 25, p_prediction = ''Safe'',
      p_prediction_confidence = Some (91 / 100), p_reading_count = 3,
      p_created_at = stamp\<rparr>"

definition ex_stale_prediction :: DailyPrediction where
  \<comment> \<open>a record for day 100 from a run that saw one reading\<close>
  "ex_stale_prediction =
     \<lparr>p_id = 7, p_date = 100, p_avg_ph = 1, p_avg_tds = 1, p_avg_turbidity = 1,
      p_avg_temperature = 1, p_prediction = ''Unsafe'', p_prediction_confidence = None,
      p_reading_count = 1, p_created_at = \<lparr>dt_date = 100, dt_us = 0\<rparr>\<rparr>"

definition ex_db_stale :: db where
  "ex_db_stale = \<lparr>sensor_readings = ex_readings, daily_predictions = [ex_stale_prediction]\<rparr>"

definition ex_db_nodata :: db where
  \<comment> \<open>no reading on day 100, and a record for day 100 from an earlier run\<close>
  "ex_db_nodata =
     \<lparr>sensor_readings = [ex_reading 1 1 99 86399999999, ex_reading 5 13 101 0],
      daily_predictions = [ex_prediction \<lparr>dt_date = 101, dt_us = 0\<rparr>]\<rparr>"

definition ex_clock :: clock where
  \<comment> \<open>day 101, 00:01:00 UTC, on a host whose zone is UTC\<close>
  "ex_clock = \<lparr>utc_now = \<lparr>dt_date = 101, dt_us = 60000000\<rparr>, utc_offset = 0\<rparr>"

definition ex_clock_later :: clock where
  \<comment> \<open>day 101, 01:00:00 UTC, same host\<close>
  "ex_clock_later = \<lparr>utc_now = \<lparr>dt_date = 101, dt_us = 3600000000\<rparr>, utc_offset = 0\<rparr>"

definition ex_clock_east :: clock where
  \<comment> \<open>day 101, 18:30:00 UTC, on a host at UTC+05:30, where it is midnight of day 102\<close>
  "ex_clock_east =
     \<lparr>utc_now = \<lparr>dt_date = 101, dt_us = 66600000000\<rparr>, utc_offset = 19800000000\<rparr>"

definition ex_encoder :: encoder where
  "ex_encoder = \<lparr>inverse_transform = (\<lambda>c. Inr (if c = 0 then ''Safe'' else ''Unsafe''))\<rparr>"

definition ex_forest :: estimator where
  \<comment> \<open>predicts class 0, to which it gives the larger probability\<close>
  "ex_forest =
     \<lparr>predict = (\<lambda>features. Inr 0),
      predict_proba = Some (\<lambda>features. Inr [91 / 100, 9 / 100])\<rparr>"

definition ex_split :: estimator where
  \<comment> \<open>predicts class 0, to which it gives the smaller probability\<close>
  "ex_split =
     \<lparr>predict = (\<lambda>features. Inr 0),
      predict_proba = Some (\<lambda>features. Inr [2 / 5, 3 / 5])\<rparr>"

definition ex_plain :: estimator where
  \<comment> \<open>has no \<open>predict_proba\<close>\<close>
  "ex_plain = \<lparr>predict = (\<lambda>features. Inr 0), predict_proba = None\<rparr>"

definition ex_service :: "estimator \<Rightarrow> MLService" where
  "ex_service m = \<lparr>model = Some m, label_encoder = Some ex_encoder\<rparr>"

definition ex_unloaded :: MLService where
  \<comment> \<open>the service before \<open>load_artifacts\<close>\<close>
  "ex_unloaded = \<lparr>model = None, label_encoder = None\<rparr>"

definition ex_request :: SensorReadingCreate where
  "ex_request = \<lparr>ph = 7, tds = 300, turbidity = 2, temperature = 25\<rparr>"

section \<open>Unfolding the model on concrete data\<close>

lemmas ex_defs =
  ex_reading_def ex_readings_def ex_db_def ex_aggregates_def ex_prediction_def
  ex_db_nodata_def ex_clock_def ex_clock_later_def ex_clock_east_def ex_encoder_def
  ex_forest_def ex_split_def ex_plain_def ex_service_def ex_unloaded_def ex_request_def
  ex_stale_prediction_def ex_db_stale_def

lemmas clock_defs =
  date_today_def shift_datetime_def us_per_day_def datetime_utcnow_def

lemmas window_defs =
  window_readings_def in_window_def dt_le_def combine_def time_min_def time_max_def

lemmas aggregate_defs =
  compute_daily_aggregates_def sql_avg_def sql_count_def py_float_def

lemmas classifier_defs =
  make_ml_prediction_def MLService_predict_def py_max_def

lemmas store_defs =
  query_by_date_def insert_prediction_def assign_prediction_def update_prediction_def
  write_prediction_def create_daily_prediction_def next_id_def

lemmas job_defs =
  job_body_def run_daily_prediction_def trigger_prediction_manually_def

section \<open>The job skips a day without readings\<close>

lemma window_empty_aggregates:
  "window_readings d y = [] \<Longrightarrow> compute_daily_aggregates d y = Inr None"
  by (simp add: compute_daily_aggregates_def sql_count_def)

text \<open>
  Claim C3. When no stored reading has its timestamp in the window of the date \<open>D\<close>,
  the aggregator returns \<open>None\<close>, a value and not an exception, and a run of the job
  whose target date is \<open>D\<close> ends on the skip branch with the database it was given:
  no table is written, so a record already stored for \<open>D\<close> stays as it is.
\<close>

theorem C3_no_readings_skip:
  assumes "window_readings d D = []" and "date_today clk - 1 = D"
  shows "compute_daily_aggregates d D = Inr None
       \<and> run_daily_prediction ml_service clk d = Inr (SkippedNoData, d)"
  using assms
  by (auto simp add: run_daily_prediction_def job_body_def window_empty_aggregates)

theorem C3_no_readings_skip_witness:
  "window_readings ex_db_nodata 100 = [] \<and> date_today ex_clock - 1 = 100
   \<and> query_by_date ex_db_nodata 100 = Some (ex_prediction \<lparr>dt_date = 101, dt_us = 0\<rparr>)
   \<and> compute_daily_aggregates ex_db_nodata 100 = Inr None
   \<and> run_daily_prediction (Some (ex_service ex_forest)) ex_clock ex_db_nodata
       = Inr (SkippedNoData, ex_db_nodata)"
proof -
  have w: "window_readings ex_db_nodata 100 = []"
    by (simp add: ex_defs window_defs)
  have t: "date_today ex_clock - 1 = 100"
    by (simp add: ex_defs clock_defs)
  have q: "query_by_date ex_db_nodata 100 = Some (ex_prediction \<lparr>dt_date = 101, dt_us = 0\<rparr>)"
    by (simp add: ex_defs query_by_date_def)
  show ?thesis
    using C3_no_readings_skip [OF w t, of "Some (ex_service ex_forest)"] w t q by simp
qed

section \<open>The aggregator takes the mean over the day's window\<close>

lemma in_window_iff_date:
  "valid_datetime t \<Longrightarrow> in_window D t \<longleftrightarrow> dt_date t = D"
  by (auto simp add: valid_datetime_def in_window_def dt_le_def combine_def time_min_def)

lemma aggregates_of_window:
  assumes "window_readings d D \<noteq> []"
  shows "compute_daily_aggregates d D =
     Inr (Some \<lparr>avg_ph = sum_list (map s_ph (window_readings d D)) / real (length (window_readings d D)),
                avg_tds = sum_list (map s_tds (window_readings d D)) / real (length (window_readings d D)),
                avg_turbidity = sum_list (map s_turbidity (window_readings d D)) / real (length (window_readings d D)),
                avg_temperature = sum_list (map s_temperature (window_readings d D)) / real (length (window_readings d D)),
                reading_count = length (window_readings d D)\<rparr>)"
  using assms by (simp add: aggregate_defs Let_def)

lemma aggregates_depend_on_window:
  "window_readings d' D = window_readings d D \<Longrightarrow>
   compute_daily_aggregates d' D = compute_daily_aggregates d D"
  by (simp add: compute_daily_aggregates_def)

lemma ex_window: "window_readings ex_db 100 =
  [ex_reading 2 7 100 0, ex_reading 3 (36 / 5) 100 43200000000, ex_reading 4 (37 / 5) 100 86399999999]"
  by (simp add: ex_defs window_defs)

lemma ex_yesterday: "date_today ex_clock - 1 = 100"
  by (simp add: ex_defs clock_defs)

lemma ex_yesterday_later: "date_today ex_clock_later - 1 = 100"
  by (simp add: ex_defs clock_defs)

lemma ex_compute: "compute_daily_aggregates ex_db 100 = Inr (Some ex_aggregates)"
  by (simp add: ex_defs window_defs aggregate_defs)

text \<open>
  Claim C4. Let \<open>W\<close> be the stored readings whose timestamp \<open>t\<close> satisfies
  \<open>start-of-day(D) \<le> t \<le> end-of-day(D)\<close>, both bounds included. When \<open>W\<close> is not empty
  the aggregator returns, for each of the four parameters, the sum over \<open>W\<close> divided by
  the number of readings in \<open>W\<close>, together with that number. Readings outside the
  window contribute nothing: dropping them all from the table leaves the result as it
  is. For timestamps that a datetime can hold, the window is exactly the calendar day.
\<close>

theorem C4_aggregates_are_window_means:
  assumes "W = filter (\<lambda>r. dt_le (combine D time_min) (s_timestamp r)
                         \<and> dt_le (s_timestamp r) (combine D time_max)) (sensor_readings d)"
      and "W \<noteq> []"
  shows "compute_daily_aggregates d D =
           Inr (Some \<lparr>avg_ph = sum_list (map s_ph W) / real (length W),
                      avg_tds = sum_list (map s_tds W) / real (length W),
                      avg_turbidity = sum_list (map s_turbidity W) / real (length W),
                      avg_temperature = sum_list (map s_temperature W) / real (length W),
                      reading_count = length W\<rparr>)
       \<and> compute_daily_aggregates (d\<lparr>sensor_readings := W\<rparr>) D = compute_daily_aggregates d D
       \<and> (\<forall>r \<in> set (sensor_readings d).
            valid_datetime (s_timestamp r) \<longrightarrow> (r \<in> set W \<longleftrightarrow> dt_date (s_timestamp r) = D))"
proof -
  have w: "W = window_readings d D"
    using assms(1) by (simp add: window_readings_def in_window_def)
  have a: "compute_daily_aggregates (d\<lparr>sensor_readings := W\<rparr>) D = compute_daily_aggregates d D"
    by (rule aggregates_depend_on_window) (simp add: w window_readings_def)
  have b: "\<forall>r \<in> set (sensor_readings d).
            valid_datetime (s_timestamp r) \<longrightarrow> (r \<in> set W \<longleftrightarrow> dt_date (s_timestamp r) = D)"
    by (simp add: w window_readings_def in_window_iff_date)
  from assms(2) w have "window_readings d D \<noteq> []" by simp
  from aggregates_of_window [OF this] a b show ?thesis by (simp add: w)
qed

theorem C4_aggregates_are_window_means_witness:
  "compute_daily_aggregates ex_db 100 =
     Inr (Some \<lparr>avg_ph = 36 / 5, avg_tds = 300, avg_turbidity = 2, avg_temperature = 25,
                reading_count = 3\<rparr>)
   \<and> compute_daily_aggregates (ex_db\<lparr>sensor_readings := window_readings ex_db 100\<rparr>) 100
       = compute_daily_aggregates ex_db 100
   \<and> ex_reading 1 1 99 86399999999 \<in> set (sensor_readings ex_db)
   \<and> ex_reading 1 1 99 86399999999 \<notin> set (window_readings ex_db 100)
   \<and> ex_reading 5 13 101 0 \<in> set (sensor_readings ex_db)
   \<and> ex_reading 5 13 101 0 \<notin> set (window_readings ex_db 100)"
proof -
  have w: "window_readings ex_db 100 =
      filter (\<lambda>r. dt_le (combine 100 time_min) (s_timestamp r)
                 \<and> dt_le (s_timestamp r) (combine 100 time_max)) (sensor_readings ex_db)"
    by (simp add: window_readings_def in_window_def)
  have n: "window_readings ex_db 100 \<noteq> []"
    by (simp add: ex_window)
  have s: "ex_reading 1 1 99 86399999999 \<in> set (sensor_readings ex_db)
         \<and> ex_reading 5 13 101 0 \<in> set (sensor_readings ex_db)"
    by (simp add: ex_db_def ex_readings_def)
  have o: "ex_reading 1 1 99 86399999999 \<notin> set (window_readings ex_db 100)
         \<and> ex_reading 5 13 101 0 \<notin> set (window_readings ex_db 100)"
    by (simp add: ex_window) (simp add: ex_reading_def)
  from C4_aggregates_are_window_means [OF w n] s o show ?thesis
    by (simp add: ex_window) (simp add: ex_reading_def)
qed

section \<open>A failing classification ends the run without a write\<close>

lemma not_loaded_raises:
  "model svc = None \<or> label_encoder svc = None \<Longrightarrow>
   MLService_predict svc a b c t = Inl RuntimeError"
  by (auto simp add: MLService_predict_def split: option.splits)

text \<open>
  Claim C5. When the aggregate exists and the classification call of the job raises,
  the run ends on the handler branch with the exception it caught, returns normally,
  and hands back the database it was given, so no record is inserted or modified. This
  covers a service whose artifacts are not loaded, whose \<open>predict\<close> raises
  RuntimeError, and a global that is still unbound. The manual trigger then answers
  with its usual message, not with an error.
\<close>

theorem C5_failed_classification_writes_nothing:
  assumes "compute_daily_aggregates d (date_today clk - 1) = Inr (Some aggs)"
      and "make_ml_prediction ml_service aggs = Inl e"
  shows "run_daily_prediction ml_service clk d = Inr (Failed e, d)
       \<and> trigger_prediction_manually ml_service clk d
           = (Message ''Daily prediction triggered successfully'', d)
       \<and> (\<forall>svc. (model svc = None \<or> label_encoder svc = None)
              \<longrightarrow> make_ml_prediction (Some svc) aggs = Inl RuntimeError)
       \<and> make_ml_prediction None aggs = Inl AttributeError"
proof -
  have r: "run_daily_prediction ml_service clk d = Inr (Failed e, d)"
    using assms by (simp add: run_daily_prediction_def job_body_def)
  have t: "trigger_prediction_manually ml_service clk d
           = (Message ''Daily prediction triggered successfully'', d)"
    by (simp add: trigger_prediction_manually_def r)
  have n: "\<forall>svc. (model svc = None \<or> label_encoder svc = None)
              \<longrightarrow> make_ml_prediction (Some svc) aggs = Inl RuntimeError"
    by (simp add: make_ml_prediction_def not_loaded_raises)
  have u: "make_ml_prediction None aggs = Inl AttributeError"
    by (simp add: make_ml_prediction_def)
  from r t n u show ?thesis by simp
qed

theorem C5_failed_classification_writes_nothing_witness:
  "compute_daily_aggregates ex_db (date_today ex_clock - 1) = Inr (Some ex_aggregates)
   \<and> make_ml_prediction (Some ex_unloaded) ex_aggregates = Inl RuntimeError
   \<and> run_daily_prediction (Some ex_unloaded) ex_clock ex_db = Inr (Failed RuntimeError, ex_db)
   \<and> trigger_prediction_manually (Some ex_unloaded) ex_clock ex_db
       = (Message ''Daily prediction triggered successfully'', ex_db)"
proof -
  have a: "compute_daily_aggregates ex_db (date_today ex_clock - 1) = Inr (Some ex_aggregates)"
    by (simp add: ex_yesterday ex_compute)
  have m: "make_ml_prediction (Some ex_unloaded) ex_aggregates = Inl RuntimeError"
    by (simp add: make_ml_prediction_def MLService_predict_def ex_unloaded_def)
  from C5_failed_classification_writes_nothing [OF a m] a m show ?thesis by simp
qed

section \<open>Ingestion stamps the reading itself\<close>

text \<open>
  Claim C10. The stored reading carries the time the store's UTC clock shows at the
  write. The function reads the four parameters of the request and nothing else:
  a request with any further fields gives the same row and the same table as the
  request cut down to its four parameters, so no field of a request can set the
  timestamp.
\<close>

theorem C10_timestamp_from_store_clock:
  "s_timestamp (fst (create_sensor_reading clk d reading)) = datetime_utcnow clk
   \<and> create_sensor_reading clk d reading
       = create_sensor_reading clk d
           \<lparr>ph = ph reading, tds = tds reading, turbidity = turbidity reading,
            temperature = temperature reading\<rparr>
   \<and> sensor_readings (snd (create_sensor_reading clk d reading))
       = sensor_readings d @ [fst (create_sensor_reading clk d reading)]
   \<and> daily_predictions (snd (create_sensor_reading clk d reading)) = daily_predictions d"
  by (simp add: create_sensor_reading_def Let_def)

theorem C10_timestamp_from_store_clock_witness:
  "s_timestamp (fst (create_sensor_reading ex_clock ex_db
      (SensorReadingCreate.extend ex_request \<lparr>dt_date = 1, dt_us = 0\<rparr>)))
     = \<lparr>dt_date = 101, dt_us = 60000000\<rparr>
   \<and> create_sensor_reading ex_clock ex_db
       (SensorReadingCreate.extend ex_request \<lparr>dt_date = 1, dt_us = 0\<rparr>)
     = create_sensor_reading ex_clock ex_db ex_request"
proof -
  have n: "datetime_utcnow ex_clock = \<lparr>dt_date = 101, dt_us = 60000000\<rparr>"
    by (simp add: datetime_utcnow_def ex_clock_def)
  have r: "\<lparr>ph = ph (SensorReadingCreate.extend ex_request \<lparr>dt_date = 1, dt_us = 0\<rparr>),
            tds = tds (SensorReadingCreate.extend ex_request \<lparr>dt_date = 1, dt_us = 0\<rparr>),
            turbidity = turbidity (SensorReadingCreate.extend ex_request \<lparr>dt_date = 1, dt_us = 0\<rparr>),
            temperature = temperature (SensorReadingCreate.extend ex_request \<lparr>dt_date = 1, dt_us = 0\<rparr>)\<rparr>
         = ex_request"
    by (simp add: SensorReadingCreate.defs ex_request_def)
  note C10_timestamp_from_store_clock [of ex_clock ex_db
      "SensorReadingCreate.extend ex_request \<lparr>dt_date = 1, dt_us = 0\<rparr>", unfolded n r]
  then show ?thesis by blast
qed

section \<open>The confidence is the largest probability\<close>

lemma py_max_Max: "xs \<noteq> [] \<Longrightarrow> py_max xs = Inr (Max (set xs))"
  by (cases xs) (simp_all add: py_max_def Max.set_eq_fold [symmetric])

lemma ex_predict_forest:
  "MLService_predict (ex_service ex_forest) (36 / 5) 300 2 25 = Inr (''Safe'', Some (91 / 100))"
  by (simp add: MLService_predict_def py_max_def ex_service_def ex_forest_def ex_encoder_def)

text \<open>
  Claim C7 does not hold of the code. The code's comment calls the value it returns the
  confidence of the predicted class; what it computes is \<open>max(probabilities)\<close>, which
  does not look at the predicted class. The service is written for any estimator (it
  asks \<open>hasattr\<close> for \<open>predict_proba\<close>), and for one that predicts class 0 while
  giving that class the probability 2/5 and the other class 3/5, the confidence returned
  is 3/5, where the mass of the predicted label is 2/5.
\<close>

theorem C7_confidence_not_predicted_mass:
  "MLService_predict (ex_service ex_split) 7 300 2 25 = Inr (''Safe'', Some (3 / 5))
   \<and> predicted_label_mass ex_split [7, 300, 2, 25] = Some (2 / 5)"
  by (simp add: MLService_predict_def py_max_def predicted_label_mass_def
        ex_service_def ex_split_def ex_encoder_def)

text \<open>
  Where the code and the predicted label's mass agree. For a loaded service whose
  estimator predicts a class that the encoder decodes: without \<open>predict_proba\<close> the
  confidence is absent; with it, and a non-empty probability row, the confidence is the
  largest entry of the row. That is the mass of the predicted label whenever no entry
  exceeds the entry of the predicted class, as for an estimator that predicts its most
  probable class, and it lies in [0, 1] whenever every entry of the row does.
\<close>

lemma confidence_is_largest_probability:
  assumes "model svc = Some m" and "label_encoder svc = Some enc"
      and "predict m [a, b, c, t] = Inr k" and "inverse_transform enc k = Inr l"
  shows "(predict_proba m = None \<longrightarrow> MLService_predict svc a b c t = Inr (l, None))
       \<and> (\<forall>proba ps. predict_proba m = Some proba \<and> proba [a, b, c, t] = Inr ps \<and> ps \<noteq> [] \<longrightarrow>
             MLService_predict svc a b c t = Inr (l, Some (Max (set ps)))
           \<and> (k < length ps \<and> (\<forall>p \<in> set ps. p \<le> ps ! k) \<longrightarrow>
                 predicted_label_mass m [a, b, c, t] = Some (Max (set ps)))
           \<and> ((\<forall>p \<in> set ps. 0 \<le> p \<and> p \<le> 1) \<longrightarrow> 0 \<le> Max (set ps) \<and> Max (set ps) \<le> 1))"
proof (intro conjI allI impI)
  assume "predict_proba m = None"
  with assms show "MLService_predict svc a b c t = Inr (l, None)"
    by (simp add: MLService_predict_def)
next
  fix proba ps
  assume h: "predict_proba m = Some proba \<and> proba [a, b, c, t] = Inr ps \<and> ps \<noteq> []"
  with assms show "MLService_predict svc a b c t = Inr (l, Some (Max (set ps)))"
    by (simp add: MLService_predict_def py_max_Max)
next
  fix proba ps
  assume h: "predict_proba m = Some proba \<and> proba [a, b, c, t] = Inr ps \<and> ps \<noteq> []"
     and k: "k < length ps \<and> (\<forall>p \<in> set ps. p \<le> ps ! k)"
  from k have "ps ! k \<in> set ps" by simp
  with k have "Max (set ps) = ps ! k"
    by (intro Max_eqI) auto
  with h k assms show "predicted_label_mass m [a, b, c, t] = Some (Max (set ps))"
    by (simp add: predicted_label_mass_def)
next
  fix proba ps
  assume h: "predict_proba m = Some proba \<and> proba [a, b, c, t] = Inr ps \<and> ps \<noteq> []"
     and r: "\<forall>p \<in> set ps. 0 \<le> p \<and> p \<le> 1"
  from h have "Max (set ps) \<in> set ps" by (intro Max_in) auto
  with r show "0 \<le> Max (set ps)" by blast
next
  fix proba ps
  assume h: "predict_proba m = Some proba \<and> proba [a, b, c, t] = Inr ps \<and> ps \<noteq> []"
     and r: "\<forall>p \<in> set ps. 0 \<le> p \<and> p \<le> 1"
  from h have "Max (set ps) \<in> set ps" by (intro Max_in) auto
  with r show "Max (set ps) \<le> 1" by blast
qed

lemma confidence_of_forest_and_plain:
  "MLService_predict (ex_service ex_forest) 7 300 2 25 = Inr (''Safe'', Some (91 / 100))
   \<and> predicted_label_mass ex_forest [7, 300, 2, 25] = Some (91 / 100)
   \<and> MLService_predict (ex_service ex_plain) 7 300 2 25 = Inr (''Safe'', None)"
proof -
  have p: "predict ex_plain [7, 300, 2, 25] = Inr 0" "predict_proba ex_plain = None"
    by (simp_all add: ex_plain_def)
  have f: "predict ex_forest [7, 300, 2, 25] = Inr 0"
          "predict_proba ex_forest = Some (\<lambda>features. Inr [91 / 100, 9 / 100])"
    by (simp_all add: ex_forest_def)
  have e: "inverse_transform ex_encoder 0 = Inr ''Safe''"
    by (simp add: ex_encoder_def)
  have s: "model (ex_service m) = Some m" "label_encoder (ex_service m) = Some ex_encoder" for m
    by (simp_all add: ex_service_def)
  from confidence_is_largest_probability [OF s(1) s(2) p(1) e] p(2)
  have 1: "MLService_predict (ex_service ex_plain) 7 300 2 25 = Inr (''Safe'', None)"
    by simp
  from confidence_is_largest_probability [OF s(1) s(2) f(1) e] f(2)
  have 2: "MLService_predict (ex_service ex_forest) 7 300 2 25 = Inr (''Safe'', Some (91 / 100))
         \<and> predicted_label_mass ex_forest [7, 300, 2, 25] = Some (91 / 100)"
    by (simp add: predicted_label_mass_def ex_forest_def)
  from 1 2 show ?thesis by simp
qed

section \<open>The target date comes from the local clock\<close>

text \<open>
  Claim C9 does not hold of the code. Timestamps are taken from \<open>datetime.utcnow\<close>,
  the target date from \<open>date.today()\<close>, the local date. On a host at UTC+05:30 the
  scheduler fires at local midnight of day 102, which is 18:30 UTC of day 101: the job
  targets day 101, the UTC day still in progress, selects the reading stamped on it and
  stores a prediction for it.
\<close>

theorem C9_target_date_is_local_yesterday:
  "dt_date (datetime_utcnow ex_clock_east) = 101
   \<and> date_today ex_clock_east - 1 = 101
   \<and> window_readings ex_db (date_today ex_clock_east - 1) = [ex_reading 5 13 101 0]
   \<and> run_daily_prediction (Some (ex_service ex_forest)) ex_clock_east ex_db =
       Inr (Completed,
            ex_db\<lparr>daily_predictions :=
              [\<lparr>p_id = 1, p_date = 101, p_avg_ph = 13, p_avg_tds = 300, p_avg_turbidity = 2,
                p_avg_temperature = 25, p_prediction = ''Safe'',
                p_prediction_confidence = Some (91 / 100), p_reading_count = 1,
                p_created_at = \<lparr>dt_date = 101, dt_us = 66600000000\<rparr>\<rparr>]\<rparr>)"
proof -
  have t: "date_today ex_clock_east - 1 = 101"
    by (simp add: ex_clock_east_def clock_defs)
  have u: "dt_date (datetime_utcnow ex_clock_east) = 101"
    by (simp add: ex_clock_east_def datetime_utcnow_def)
  have w: "window_readings ex_db 101 = [ex_reading 5 13 101 0]"
    by (simp add: ex_defs window_defs)
  have a: "compute_daily_aggregates ex_db 101 =
      Inr (Some \<lparr>avg_ph = 13, avg_tds = 300, avg_turbidity = 2, avg_temperature = 25,
                 reading_count = Suc 0\<rparr>)"
    by (simp add: aggregate_defs w) (simp add: ex_reading_def)
  have m: "MLService_predict (ex_service ex_forest) 13 300 2 25 = Inr (''Safe'', Some (91 / 100))"
    by (simp add: MLService_predict_def py_max_def ex_service_def ex_forest_def ex_encoder_def)
  have n: "datetime_utcnow ex_clock_east = \<lparr>dt_date = 101, dt_us = 66600000000\<rparr>"
    by (simp add: ex_clock_east_def datetime_utcnow_def)
  have c: "create_daily_prediction ex_db \<lparr>dt_date = 101, dt_us = 66600000000\<rparr> 101
             \<lparr>avg_ph = 13, avg_tds = 300, avg_turbidity = 2, avg_temperature = 25,
              reading_count = Suc 0\<rparr> ''Safe'' (Some (91 / 100)) =
       Inr (\<lparr>p_id = 1, p_date = 101, p_avg_ph = 13, p_avg_tds = 300, p_avg_turbidity = 2,
             p_avg_temperature = 25, p_prediction = ''Safe'',
             p_prediction_confidence = Some (91 / 100), p_reading_count = 1,
             p_created_at = \<lparr>dt_date = 101, dt_us = 66600000000\<rparr>\<rparr>,
            ex_db\<lparr>daily_predictions :=
              [\<lparr>p_id = 1, p_date = 101, p_avg_ph = 13, p_avg_tds = 300, p_avg_turbidity = 2,
                p_avg_temperature = 25, p_prediction = ''Safe'',
                p_prediction_confidence = Some (91 / 100), p_reading_count = 1,
                p_created_at = \<lparr>dt_date = 101, dt_us = 66600000000\<rparr>\<rparr>]\<rparr>)"
    by (simp add: store_defs ex_db_def Let_def)
  have r: "run_daily_prediction (Some (ex_service ex_forest)) ex_clock_east ex_db =
       Inr (Completed,
            ex_db\<lparr>daily_predictions :=
              [\<lparr>p_id = 1, p_date = 101, p_avg_ph = 13, p_avg_tds = 300, p_avg_turbidity = 2,
                p_avg_temperature = 25, p_prediction = ''Safe'',
                p_prediction_confidence = Some (91 / 100), p_reading_count = 1,
                p_created_at = \<lparr>dt_date = 101, dt_us = 66600000000\<rparr>\<rparr>]\<rparr>)"
    by (simp add: run_daily_prediction_def job_body_def t a make_ml_prediction_def m n c)
  from t u w r show ?thesis by simp
qed

section \<open>The prediction store keeps one row per date\<close>

lemma next_id_fresh: "next_id ids \<notin> set ids"
proof
  assume "next_id ids \<in> set ids"
  then have "next_id ids \<le> Max (set (0 # ids))" by simp
  also have "\<dots> = fold max ids 0" by (rule Max.set_eq_fold)
  finally show False by (simp add: next_id_def)
qed

lemma query_by_date_None:
  "query_by_date d y = None \<longleftrightarrow> y \<notin> set (map p_date (daily_predictions d))"
  by (auto simp add: query_by_date_def find_None_iff)


lemma assign_prediction_keys [simp]:
  "p_date (assign_prediction p now aggs l c) = p_date p"
  "p_id (assign_prediction p now aggs l c) = p_id p"
  by (simp_all add: assign_prediction_def)

lemma update_prediction_keys:
  "map p_date (daily_predictions (snd (update_prediction d now row aggs l c)))
     = map p_date (daily_predictions d)"
  "map p_id (daily_predictions (snd (update_prediction d now row aggs l c)))
     = map p_id (daily_predictions d)"
  "sensor_readings (snd (update_prediction d now row aggs l c)) = sensor_readings d"
  by (simp_all add: update_prediction_def comp_def)

lemma insert_prediction_refused:
  "y \<in> set (map p_date (daily_predictions d)) \<Longrightarrow>
   insert_prediction d now y aggs l c = Inl IntegrityError"
  by (simp add: insert_prediction_def)

lemma insert_prediction_accepted:
  assumes "insert_prediction d now y aggs l c = Inr (row, d')"
  shows "y \<notin> set (map p_date (daily_predictions d))"
    and "daily_predictions d' = daily_predictions d @ [row]"
    and "sensor_readings d' = sensor_readings d"
    and "p_date row = y"
    and "p_id row \<notin> set (map p_id (daily_predictions d))"
    and "assign_prediction row now aggs l c = row"
  using assms next_id_fresh [of "map p_id (daily_predictions d)"]
  by (auto simp add: insert_prediction_def Let_def assign_prediction_def split: if_splits)

lemma write_prediction_unique_dates:
  assumes "unique_dates d" and "write_prediction d now existing y aggs l c = Inr (row, d')"
  shows "unique_dates d'"
proof (cases existing)
  case None
  with assms(2) have i: "insert_prediction d now y aggs l c = Inr (row, d')"
    by (simp add: write_prediction_def)
  from insert_prediction_accepted(1,2,4) [OF i] assms(1) show ?thesis
    by (simp add: unique_dates_def)
next
  case (Some old)
  with assms(2) have "d' = snd (update_prediction d now old aggs l c)"
    by (auto simp add: write_prediction_def)
  with assms(1) show ?thesis
    by (simp add: unique_dates_def update_prediction_keys)
qed


lemma write_prediction_readings:
  assumes "write_prediction d now existing y aggs l c = Inr (row, d')"
  shows "sensor_readings d' = sensor_readings d"
proof (cases existing)
  case None
  with assms have i: "insert_prediction d now y aggs l c = Inr (row, d')"
    by (simp add: write_prediction_def)
  from insert_prediction_accepted(3) [OF i] show ?thesis .
next
  case (Some old)
  with assms have "d' = snd (update_prediction d now old aggs l c)"
    by (auto simp add: write_prediction_def)
  then show ?thesis by (simp add: update_prediction_keys)
qed

lemma create_daily_prediction_succeeds:
  "\<exists>row d'. create_daily_prediction d now y aggs l c = Inr (row, d')"
proof (cases "query_by_date d y")
  case None
  then have "y \<notin> set (map p_date (daily_predictions d))"
    by (simp add: query_by_date_None)
  with None show ?thesis
    by (simp add: create_daily_prediction_def write_prediction_def insert_prediction_def Let_def)
next
  case (Some old)
  then show ?thesis
    by (simp add: create_daily_prediction_def write_prediction_def update_prediction_def)
qed

lemma run_step_unique_dates:
  assumes "unique_dates d" and "run_step ml_service clk d st = (st', d')"
  shows "unique_dates d'"
proof (cases st)
  case (LookedUp y aggs l c existing)
  show ?thesis
  proof (cases "write_prediction d (datetime_utcnow clk) existing y aggs l c")
    case (Inl e)
    with assms LookedUp show ?thesis by (simp add: run_step_def)
  next
    case (Inr r)
    obtain row d2 where r: "r = (row, d2)" by (cases r)
    with Inr assms(2) LookedUp have "d' = d2" by (simp add: run_step_def)
    with write_prediction_unique_dates [OF assms(1)] Inr r show ?thesis by simp
  qed
qed (use assms in \<open>auto simp add: run_step_def Let_def split: sum.splits option.splits prod.splits\<close>)

lemma sys_step_unique_dates:
  assumes "unique_dates (fst s)"
  shows "unique_dates (fst (sys_step ml_service s ev))"
proof (cases s)
  case (Pair d runs)
  show ?thesis
  proof (cases ev)
    case Trigger
    with Pair assms show ?thesis by simp
  next
    case (Step i clk)
    show ?thesis
    proof (cases "i < length runs")
      case True
      obtain st' d' where r: "run_step ml_service clk d (runs ! i) = (st', d')"
        by (cases "run_step ml_service clk d (runs ! i)")
      from assms Pair have "unique_dates d" by simp
      from run_step_unique_dates [OF this r] r True Pair Step show ?thesis by simp
    next
      case False
      with Pair Step assms show ?thesis by simp
    qed
  next
    case (Ingest reading clk)
    with Pair assms show ?thesis
      by (simp add: create_sensor_reading_def Let_def unique_dates_def)
  qed
qed

lemma exec_unique_dates:
  "unique_dates (fst s) \<Longrightarrow> unique_dates (fst (exec ml_service s evs))"
  unfolding exec_def
  by (induction evs arbitrary: s) (simp_all add: sys_step_unique_dates)


lemma run_daily_prediction_unique_dates:
  assumes "unique_dates d" and "run_daily_prediction ml_service clk d = Inr (outcome, d')"
  shows "unique_dates d'"
  using assms write_prediction_unique_dates [OF assms(1)]
  by (auto simp add: run_daily_prediction_def job_body_def create_daily_prediction_def Let_def
        split: sum.splits option.splits prod.splits)

section \<open>Steps of a run\<close>

lemma exec_Nil [simp]: "exec ml_service s [] = s"
  by (simp add: exec_def)

lemma exec_Cons [simp]: "exec ml_service s (ev # evs) = exec ml_service (sys_step ml_service s ev) evs"
  by (simp add: exec_def)

lemma step_triggered:
  "compute_daily_aggregates d (date_today clk - 1) = Inr (Some aggs) \<Longrightarrow>
   run_step ml_service clk d Triggered = (Aggregated (date_today clk - 1) aggs, d)"
  by (simp add: run_step_def)

lemma step_aggregated:
  "make_ml_prediction ml_service aggs = Inr (l, c) \<Longrightarrow>
   run_step ml_service clk d (Aggregated y aggs) = (Predicted y aggs l c, d)"
  by (simp add: run_step_def)

lemma step_predicted:
  "run_step ml_service clk d (Predicted y aggs l c) = (LookedUp y aggs l c (query_by_date d y), d)"
  by (simp add: run_step_def)

lemma step_lookedup_written:
  "write_prediction d (datetime_utcnow clk) existing y aggs l c = Inr (row, d') \<Longrightarrow>
   run_step ml_service clk d (LookedUp y aggs l c existing) = (Ended Completed, d')"
  by (simp add: run_step_def)

lemma step_lookedup_refused:
  "write_prediction d (datetime_utcnow clk) existing y aggs l c = Inl e \<Longrightarrow>
   run_step ml_service clk d (LookedUp y aggs l c existing) = (Ended (Failed e), d)"
  by (simp add: run_step_def)

text \<open>A run whose four steps are taken in a row, at one clock reading, is the job.\<close>

lemma run_alone:
  assumes "run_daily_prediction ml_service clk d = Inr (outcome, d')"
  shows "exec ml_service (d, [Triggered]) [Step 0 clk, Step 0 clk, Step 0 clk, Step 0 clk]
           = (d', [Ended outcome])"
proof (cases "compute_daily_aggregates d (date_today clk - 1)")
  case (Inl e)
  with assms show ?thesis
    by (auto simp add: run_daily_prediction_def job_body_def run_step_def)
next
  case (Inr r)
  show ?thesis
  proof (cases r)
    case None
    with Inr assms show ?thesis
      by (auto simp add: run_daily_prediction_def job_body_def run_step_def)
  next
    case (Some aggs)
    note a = Inr [unfolded Some]
    show ?thesis
    proof (cases "make_ml_prediction ml_service aggs")
      case (Inl e)
      with a assms show ?thesis
        by (auto simp add: run_daily_prediction_def job_body_def run_step_def)
    next
      case (Inr lc)
      obtain l c where lc: "lc = (l, c)" by (cases lc)
      note m = Inr [unfolded lc]
      obtain row d2 where
        w: "create_daily_prediction d (datetime_utcnow clk) (date_today clk - 1) aggs l c = Inr (row, d2)"
        using create_daily_prediction_succeeds by blast
      with a m assms have o: "outcome = Completed" "d' = d2"
        by (auto simp add: run_daily_prediction_def job_body_def)
      from w have w': "write_prediction d (datetime_utcnow clk)
          (query_by_date d (date_today clk - 1)) (date_today clk - 1) aggs l c = Inr (row, d2)"
        by (simp add: create_daily_prediction_def)
      show ?thesis
        by (simp add: step_triggered [OF a] step_aggregated [OF m] step_predicted
              step_lookedup_written [OF w'] o)
    qed
  qed
qed

section \<open>Two runs for one date\<close>

lemma ex_make_prediction:
  "make_ml_prediction (Some (ex_service ex_forest)) ex_aggregates = Inr (''Safe'', Some (91 / 100))"
  by (simp add: make_ml_prediction_def ex_aggregates_def ex_predict_forest)

lemma ex_query_empty: "query_by_date ex_db 100 = None"
  by (simp add: query_by_date_def ex_db_def)

lemma ex_insert:
  "write_prediction ex_db (datetime_utcnow ex_clock) None 100 ex_aggregates ''Safe'' (Some (91 / 100))
     = Inr (ex_prediction \<lparr>dt_date = 101, dt_us = 60000000\<rparr>,
            ex_db\<lparr>daily_predictions := [ex_prediction \<lparr>dt_date = 101, dt_us = 60000000\<rparr>]\<rparr>)"
  by (simp add: write_prediction_def insert_prediction_def next_id_def Let_def datetime_utcnow_def
        ex_db_def ex_aggregates_def ex_prediction_def ex_clock_def)

lemma ex_insert_lost:
  "write_prediction (ex_db\<lparr>daily_predictions := [ex_prediction \<lparr>dt_date = 101, dt_us = 60000000\<rparr>]\<rparr>)
      (datetime_utcnow ex_clock_later) None 100 ex_aggregates ''Safe'' (Some (91 / 100))
     = Inl IntegrityError"
  by (simp add: write_prediction_def insert_prediction_def ex_prediction_def)

lemma ex_race:
  "exec (Some (ex_service ex_forest)) (ex_db, [])
     [Trigger, Step 0 ex_clock, Trigger, Step 1 ex_clock_later,
      Step 0 ex_clock, Step 1 ex_clock_later, Step 0 ex_clock, Step 1 ex_clock_later,
      Step 0 ex_clock, Step 1 ex_clock_later]
   = (ex_db\<lparr>daily_predictions := [ex_prediction \<lparr>dt_date = 101, dt_us = 60000000\<rparr>]\<rparr>,
      [Ended Completed, Ended (Failed IntegrityError)])"
proof -
  have a: "compute_daily_aggregates ex_db (date_today ex_clock - 1) = Inr (Some ex_aggregates)"
    by (simp add: ex_yesterday ex_compute)
  have b: "compute_daily_aggregates ex_db (date_today ex_clock_later - 1) = Inr (Some ex_aggregates)"
    by (simp add: ex_yesterday_later ex_compute)
  show ?thesis
    by (simp add: step_triggered [OF a] step_triggered [OF b] ex_yesterday ex_yesterday_later
          step_aggregated [OF ex_make_prediction] step_predicted ex_query_empty
          step_lookedup_written [OF ex_insert] step_lookedup_refused [OF ex_insert_lost])
qed

text \<open>
  Claim C2. From a store whose dates are distinct, every sequence of events, that is
  every interleaving of the steps of any number of runs with triggers and ingestion,
  whatever the runs have looked up so far, leaves the dates distinct; so does every
  run of the job taken as a whole. The store itself enforces it: an insert for a date
  that has a row is refused with an integrity error, also when the lookup of the run
  found none.
\<close>

theorem C2_dates_stay_unique:
  assumes "unique_dates d"
  shows "unique_dates (fst (exec ml_service (d, runs) evs))
       \<and> (\<forall>outcome d'. run_daily_prediction ml_service clk d = Inr (outcome, d')
             \<longrightarrow> unique_dates d')
       \<and> (target_date \<in> set (map p_date (daily_predictions d))
             \<longrightarrow> insert_prediction d now target_date aggs l c = Inl IntegrityError)"
  using assms exec_unique_dates [of "(d, runs)" ml_service evs]
    run_daily_prediction_unique_dates [OF assms, of ml_service clk]
  by (auto simp add: insert_prediction_refused)

theorem C2_dates_stay_unique_witness:
  "unique_dates ex_db
   \<and> exec (Some (ex_service ex_forest)) (ex_db, [])
       [Trigger, Step 0 ex_clock, Trigger, Step 1 ex_clock_later,
        Step 0 ex_clock, Step 1 ex_clock_later, Step 0 ex_clock, Step 1 ex_clock_later,
        Step 0 ex_clock, Step 1 ex_clock_later]
     = (ex_db\<lparr>daily_predictions := [ex_prediction \<lparr>dt_date = 101, dt_us = 60000000\<rparr>]\<rparr>,
        [Ended Completed, Ended (Failed IntegrityError)])
   \<and> unique_dates (ex_db\<lparr>daily_predictions := [ex_prediction \<lparr>dt_date = 101, dt_us = 60000000\<rparr>]\<rparr>)"
proof -
  have u: "unique_dates ex_db"
    by (simp add: unique_dates_def ex_db_def)
  from C2_dates_stay_unique [OF u, of "Some (ex_service ex_forest)" "[]"
      "[Trigger, Step 0 ex_clock, Trigger, Step 1 ex_clock_later,
        Step 0 ex_clock, Step 1 ex_clock_later, Step 0 ex_clock, Step 1 ex_clock_later,
        Step 0 ex_clock, Step 1 ex_clock_later]"]
  have "unique_dates (fst (exec (Some (ex_service ex_forest)) (ex_db, [])
       [Trigger, Step 0 ex_clock, Trigger, Step 1 ex_clock_later,
        Step 0 ex_clock, Step 1 ex_clock_later, Step 0 ex_clock, Step 1 ex_clock_later,
        Step 0 ex_clock, Step 1 ex_clock_later]))"
    by blast
  with u ex_race show ?thesis by simp
qed

text \<open>
  Claim C6, as stated, fails: a trigger that arrives while a run for day 100 is in
  flight is taken at once, and after its first step two runs for day 100 are in flight
  together.
\<close>

theorem C6_two_runs_in_flight:
  "exec (Some (ex_service ex_forest)) (ex_db, [])
       [Trigger, Step 0 ex_clock, Trigger, Step 1 ex_clock_later]
     = (ex_db, [Aggregated 100 ex_aggregates, Aggregated 100 ex_aggregates])
   \<and> \<not> single_flight [Aggregated 100 ex_aggregates, Aggregated 100 ex_aggregates]"
proof -
  have a: "compute_daily_aggregates ex_db (date_today ex_clock - 1) = Inr (Some ex_aggregates)"
    by (simp add: ex_yesterday ex_compute)
  have b: "compute_daily_aggregates ex_db (date_today ex_clock_later - 1) = Inr (Some ex_aggregates)"
    by (simp add: ex_yesterday_later ex_compute)
  have s: "\<not> single_flight [Aggregated 100 ex_aggregates, Aggregated 100 ex_aggregates]"
    by (simp add: single_flight_def in_flight_dates_def List.map_filter_simps)
  show ?thesis
    by (simp add: step_triggered [OF a] step_triggered [OF b] ex_yesterday ex_yesterday_later s)
qed

text \<open>
  Claim C6, amended. The code has no single-flight guard: a trigger is taken in every
  state and starts a run beside those in flight, neither waiting nor refused. Runs that
  overlap on a date are settled by the store alone: a run that found no row for its
  date at the lookup, and writes after the date has got a row, receives the integrity
  error, ends as failed and leaves the store as it was.
\<close>

theorem C6_overlap_settled_by_store:
  "exec ml_service (d, runs) [Trigger] = (d, runs @ [Triggered])
   \<and> (i < length runs \<and> runs ! i = LookedUp y aggs l c None
        \<and> y \<in> set (map p_date (daily_predictions d))
      \<longrightarrow> exec ml_service (d, runs) [Step i clk] = (d, runs[i := Ended (Failed IntegrityError)]))"
  by (simp add: run_step_def write_prediction_def insert_prediction_refused)

theorem C6_overlap_settled_by_store_witness:
  "exec (Some (ex_service ex_forest))
      (ex_db\<lparr>daily_predictions := [ex_prediction \<lparr>dt_date = 101, dt_us = 60000000\<rparr>]\<rparr>,
       [Ended Completed, LookedUp 100 ex_aggregates ''Safe'' (Some (91 / 100)) None])
      [Step 1 ex_clock_later]
   = (ex_db\<lparr>daily_predictions := [ex_prediction \<lparr>dt_date = 101, dt_us = 60000000\<rparr>]\<rparr>,
      [Ended Completed, Ended (Failed IntegrityError)])"
  using C6_overlap_settled_by_store [of "Some (ex_service ex_forest)"
      "ex_db\<lparr>daily_predictions := [ex_prediction \<lparr>dt_date = 101, dt_us = 60000000\<rparr>]\<rparr>"
      "[Ended Completed, LookedUp 100 ex_aggregates ''Safe'' (Some (91 / 100)) None]"
      1 100 ex_aggregates "''Safe''" "Some (91 / 100)" ex_clock_later]
  by (simp add: ex_prediction_def)

section \<open>A second run for the same date\<close>











lemma run_completes:
  assumes "compute_daily_aggregates d (date_today clk - 1) = Inr (Some aggs)"
      and "make_ml_prediction ml_service aggs = Inr (l, c)"
      and "create_daily_prediction d (datetime_utcnow clk) (date_today clk - 1) aggs l c
             = Inr (row, d1)"
  shows "run_daily_prediction ml_service clk d = Inr (Completed, d1)"
  using assms by (simp add: run_daily_prediction_def job_body_def)





lemma ex_run_second:
  "run_daily_prediction (Some (ex_service ex_forest)) ex_clock_later
     (ex_db\<lparr>daily_predictions := [ex_prediction \<lparr>dt_date = 101, dt_us = 60000000\<rparr>]\<rparr>) =
     Inr (Completed,
          ex_db\<lparr>daily_predictions := [ex_prediction \<lparr>dt_date = 101, dt_us = 3600000000\<rparr>]\<rparr>)"
proof -
  have w: "window_readings
      (ex_db\<lparr>daily_predictions := [ex_prediction \<lparr>dt_date = 101, dt_us = 60000000\<rparr>]\<rparr>) 100
      = window_readings ex_db 100"
    by (simp add: window_readings_def)
  have a: "compute_daily_aggregates
      (ex_db\<lparr>daily_predictions := [ex_prediction \<lparr>dt_date = 101, dt_us = 60000000\<rparr>]\<rparr>)
      (date_today ex_clock_later - 1) = Inr (Some ex_aggregates)"
    by (simp add: ex_yesterday_later aggregates_depend_on_window [OF w] ex_compute)
  have n: "datetime_utcnow ex_clock_later = \<lparr>dt_date = 101, dt_us = 3600000000\<rparr>"
    by (simp add: datetime_utcnow_def ex_clock_later_def)
  have c0: "create_daily_prediction
      (ex_db\<lparr>daily_predictions := [ex_prediction \<lparr>dt_date = 101, dt_us = 60000000\<rparr>]\<rparr>)
      \<lparr>dt_date = 101, dt_us = 3600000000\<rparr> 100
      ex_aggregates ''Safe'' (Some (91 / 100))
    = Inr (ex_prediction \<lparr>dt_date = 101, dt_us = 3600000000\<rparr>,
           ex_db\<lparr>daily_predictions := [ex_prediction \<lparr>dt_date = 101, dt_us = 3600000000\<rparr>]\<rparr>)"
    by (simp add: store_defs ex_prediction_def ex_aggregates_def)
  have c: "create_daily_prediction
      (ex_db\<lparr>daily_predictions := [ex_prediction \<lparr>dt_date = 101, dt_us = 60000000\<rparr>]\<rparr>)
      (datetime_utcnow ex_clock_later) (date_today ex_clock_later - 1)
      ex_aggregates ''Safe'' (Some (91 / 100))
    = Inr (ex_prediction \<lparr>dt_date = 101, dt_us = 3600000000\<rparr>,
           ex_db\<lparr>daily_predictions := [ex_prediction \<lparr>dt_date = 101, dt_us = 3600000000\<rparr>]\<rparr>)"
    by (simp add: ex_yesterday_later n c0)
  from run_completes [OF a ex_make_prediction c] show ?thesis .
qed







section \<open>The manual trigger\<close>






end
